theory Spec2Isabelle
  imports Main "HOL-Library.Word" "HOL-Library.Signed_Division" "HOL-Library.Multiset"
    "HOL-Library.Sublist"
begin

section \<open>The data model of \<^verbatim>\<open>defs.h\<close>\<close>

text \<open>
  A C \<^verbatim>\<open>int\<close> is a 32-bit word. Comparisons of the source are the signed ones
  (\<open>\<le>s\<close>, \<open><s\<close>); \<open>+\<close>, \<open>-\<close> and \<open>*\<close> wrap around. A pointer is an
  \<open>addr option\<close>, \<open>None\<close> being \<^verbatim>\<open>NULL\<close>; a pointer that is not \<^verbatim>\<open>NULL\<close>
  points to a live object of its type (no object is freed while the simulation runs), so
  each struct type has its own total heap \<open>addr \<Rightarrow> _\<close>. A C string is a \<open>string\<close>, and
  \<^verbatim>\<open>strcmp(a, b) == 0\<close> is equality. The semaphores are not objects of the model: a
  function runs from its first statement to its last without a step of another thread,
  except where \<^verbatim>\<open>system_convert\<close> reads an amount after it has released the semaphore;
  there the steps of the other threads are an argument of the function.
\<close>

type_synonym c_int = "32 word"
type_synonym addr = nat

abbreviation TERMINATE :: c_int where "TERMINATE \<equiv> 0"
abbreviation DISABLED :: c_int where "DISABLED \<equiv> 1"
abbreviation SLOW :: c_int where "SLOW \<equiv> 2"
abbreviation STANDARD :: c_int where "STANDARD \<equiv> 3"
abbreviation FAST :: c_int where "FAST \<equiv> 4"

abbreviation STATUS_OK :: c_int where "STATUS_OK \<equiv> - 1"
abbreviation STATUS_EMPTY :: c_int where "STATUS_EMPTY \<equiv> 0"
abbreviation STATUS_LOW :: c_int where "STATUS_LOW \<equiv> 1"
abbreviation STATUS_INSUFFICIENT :: c_int where "STATUS_INSUFFICIENT \<equiv> 2"
abbreviation STATUS_CAPACITY :: c_int where "STATUS_CAPACITY \<equiv> 3"

abbreviation SYSTEM_WAIT_TIME :: c_int where "SYSTEM_WAIT_TIME \<equiv> 20"

abbreviation PRIORITY_HIGH :: c_int where "PRIORITY_HIGH \<equiv> 3"
abbreviation PRIORITY_MED :: c_int where "PRIORITY_MED \<equiv> 2"
abbreviation PRIORITY_LOW :: c_int where "PRIORITY_LOW \<equiv> 1"

text \<open>
  The field names of the structs carry a prefix, since several structs of the source share a
  field name (\<^verbatim>\<open>name\<close>, \<^verbatim>\<open>amount\<close>, \<^verbatim>\<open>status\<close>, \<^verbatim>\<open>resource\<close>, \<^verbatim>\<open>size\<close>).
\<close>

record Resource =
  res_name :: string
  res_amount :: c_int
  res_max_capacity :: c_int

record ResourceAmount =
  ra_resource :: "addr option"
  ra_amount :: c_int

text \<open>
  The field \<^verbatim>\<open>event_queue\<close> of a \<^verbatim>\<open>System\<close> is left out: \<^verbatim>\<open>main.c\<close> gives
  every system the address of the one queue inside the \<^verbatim>\<open>Manager\<close>.
\<close>

record System =
  sys_name :: string
  sys_consumed :: ResourceAmount
  sys_produced :: ResourceAmount
  sys_amount_stored :: c_int
  sys_processing_time :: c_int
  sys_status :: c_int

record Event =
  ev_system :: "addr option"
  ev_resource :: "addr option"
  ev_status :: c_int
  ev_priority :: c_int
  ev_amount :: c_int

text \<open>
  The linked list of \<^verbatim>\<open>EventNode\<close>s hanging off \<^verbatim>\<open>head\<close> is the list of its events,
  head first; \<^verbatim>\<open>malloc\<close> is taken to succeed.
\<close>

record EventQueue =
  q_head :: "Event list"
  q_size :: c_int

text \<open>
  The memory of the program: the two heaps, the fields of the \<^verbatim>\<open>Manager\<close> (its
  \<^verbatim>\<open>SystemArray\<close> as the list of the pointers in slots \<open>0 ..< size\<close>, which come from
  \<^verbatim>\<open>system_create\<close> and are not \<^verbatim>\<open>NULL\<close>), and the arguments of the calls of
  \<^verbatim>\<open>usleep\<close> so far, oldest first.
\<close>

record memory =
  resources :: "addr \<Rightarrow> Resource"
  systems :: "addr \<Rightarrow> System"
  simulation_running :: c_int
  system_array :: "addr list"
  event_queue :: EventQueue
  usleeps :: "c_int list"

datatype fault = NullDeref

section \<open>\<^verbatim>\<open>event.c\<close>\<close>

definition event_init ::
  "addr option \<Rightarrow> addr option \<Rightarrow> c_int \<Rightarrow> c_int \<Rightarrow> c_int \<Rightarrow> Event" where
  "event_init system resource status priority amount =
     \<lparr>ev_system = system, ev_resource = resource, ev_status = status,
      ev_priority = priority, ev_amount = amount\<rparr>"

definition event_queue_init :: EventQueue where
  "event_queue_init = \<lparr>q_head = [], q_size = 0\<rparr>"

text \<open>
  The \<^verbatim>\<open>while\<close> loop of \<^verbatim>\<open>event_queue_push\<close>: the argument is the list
  \<^verbatim>\<open>current->next\<close>, the result is that list with the new node linked in.
\<close>

fun push_after :: "Event \<Rightarrow> Event list \<Rightarrow> Event list" where
  "push_after event [] = [event]"
| "push_after event (n # rest) =
     (if ev_priority event \<le>s ev_priority n then n # push_after event rest
      else event # n # rest)"

definition event_queue_push :: "EventQueue \<Rightarrow> Event \<Rightarrow> EventQueue" where
  "event_queue_push queue event =
     (let new_head =
        (case q_head queue of
           [] \<Rightarrow> [event]
         | h # rest \<Rightarrow>
             if ev_priority h <s ev_priority event then event # h # rest
             else h # push_after event rest)
      in \<lparr>q_head = new_head, q_size = q_size queue + 1\<rparr>)"

text \<open>
  \<^verbatim>\<open>event_queue_pop\<close> returns 0 and leaves \<^verbatim>\<open>*event\<close> alone (\<open>None\<close>), or returns 1
  with the head's event in \<^verbatim>\<open>*event\<close> (\<open>Some\<close>).
\<close>

definition event_queue_pop :: "EventQueue \<Rightarrow> Event option \<times> EventQueue" where
  "event_queue_pop queue =
     (case q_head queue of
        [] \<Rightarrow> (None, queue)
      | to_remove # rest \<Rightarrow> (Some to_remove, \<lparr>q_head = rest, q_size = q_size queue - 1\<rparr>))"

section \<open>\<^verbatim>\<open>system.c\<close>\<close>

text \<open>Writes through a pointer: \<^verbatim>\<open>r->amount = v\<close>, \<^verbatim>\<open>s->amount_stored = v\<close>, \<^verbatim>\<open>s->status = v\<close>.\<close>

definition set_amount :: "addr \<Rightarrow> c_int \<Rightarrow> memory \<Rightarrow> memory" where
  "set_amount r v m = m\<lparr>resources := (resources m)(r := (resources m r)\<lparr>res_amount := v\<rparr>)\<rparr>"

definition set_amount_stored :: "addr \<Rightarrow> c_int \<Rightarrow> memory \<Rightarrow> memory" where
  "set_amount_stored s v m = m\<lparr>systems := (systems m)(s := (systems m s)\<lparr>sys_amount_stored := v\<rparr>)\<rparr>"

definition set_status :: "addr \<Rightarrow> c_int \<Rightarrow> memory \<Rightarrow> memory" where
  "set_status s v m = m\<lparr>systems := (systems m)(s := (systems m s)\<lparr>sys_status := v\<rparr>)\<rparr>"

definition usleep :: "c_int \<Rightarrow> memory \<Rightarrow> memory" where
  "usleep us m = m\<lparr>usleeps := usleeps m @ [us]\<rparr>"

text \<open>C's \<^verbatim>\<open>/\<close> on \<^verbatim>\<open>int\<close> truncates towards zero.\<close>

definition c_div :: "c_int \<Rightarrow> c_int \<Rightarrow> c_int" where
  "c_div a b = word_of_int (sint a sdiv sint b)"

definition system_simulate_process_time :: "addr \<Rightarrow> memory \<Rightarrow> memory" where
  "system_simulate_process_time system m =
     (let adjusted_processing_time =
        (if sys_status (systems m system) = SLOW then sys_processing_time (systems m system) * 2
         else if sys_status (systems m system) = FAST then c_div (sys_processing_time (systems m system)) 2
         else sys_processing_time (systems m system))
      in usleep (adjusted_processing_time * 1000) m)"

text \<open>
  \<^verbatim>\<open>system_convert\<close> holds the semaphore of the consumed resource for the comparison
  and the write only. Where the comparison fails it releases the semaphore (line 113) and
  then reads \<^verbatim>\<open>consumed_resource->amount\<close> once more (line 114) to choose between
  \<^verbatim>\<open>STATUS_EMPTY\<close> and \<^verbatim>\<open>STATUS_INSUFFICIENT\<close>. The workers run as threads, so other
  workers may take steps between the release and that read: \<open>others\<close> is what they do
  to the memory there, and the read sees the memory they leave. The function returns its
  status and the memory at its return.
\<close>

definition system_convert_with :: "(memory \<Rightarrow> memory) \<Rightarrow> addr \<Rightarrow> memory \<Rightarrow> c_int \<times> memory" where
  "system_convert_with others system m =
     (let consumed_resource = ra_resource (sys_consumed (systems m system));
          amount_consumed = ra_amount (sys_consumed (systems m system))
      in case consumed_resource of
           None \<Rightarrow> (STATUS_OK, m)
         | Some r \<Rightarrow>
             if amount_consumed \<le>s res_amount (resources m r) then
               let m1 = set_amount r (res_amount (resources m r) - amount_consumed) m;
                   m2 = system_simulate_process_time system m1;
                   m3 = (case ra_resource (sys_produced (systems m2 system)) of
                           None \<Rightarrow> m2
                         | Some p \<Rightarrow>
                             set_amount_stored system
                               (sys_amount_stored (systems m2 system)
                                  + ra_amount (sys_produced (systems m2 system))) m2)
               in (STATUS_OK, m3)
             else
               let m' = others m
               in (if res_amount (resources m' r) = 0 then STATUS_EMPTY else STATUS_INSUFFICIENT,
                   m'))"

text \<open>
  The call during which no other thread takes a step between the release of the semaphore
  and the read of line 114. The calls that return \<^verbatim>\<open>STATUS_OK\<close> never reach that read.
\<close>

definition system_convert :: "addr \<Rightarrow> memory \<Rightarrow> c_int \<times> memory" where
  "system_convert system m = system_convert_with (\<lambda>m. m) system m"

definition system_store_resources :: "addr \<Rightarrow> memory \<Rightarrow> c_int \<times> memory" where
  "system_store_resources system m =
     (case ra_resource (sys_produced (systems m system)) of
        None \<Rightarrow> (STATUS_OK, m)
      | Some r \<Rightarrow>
          if sys_amount_stored (systems m system) = 0 then (STATUS_OK, m)
          else
            let available_space = res_max_capacity (resources m r) - res_amount (resources m r)
            in if sys_amount_stored (systems m system) \<le>s available_space then
                 (STATUS_OK,
                  set_amount_stored system 0
                    (set_amount r (res_amount (resources m r) + sys_amount_stored (systems m system)) m))
               else if 0 <s available_space then
                 (STATUS_CAPACITY,
                  set_amount_stored system (sys_amount_stored (systems m system) - available_space)
                    (set_amount r (res_amount (resources m r) + available_space) m))
               else (STATUS_CAPACITY, m))"

text \<open>
  The three statements of both failure branches of \<^verbatim>\<open>system_run\<close>: \<^verbatim>\<open>event_init\<close>
  with the amount read through the resource pointer, \<^verbatim>\<open>event_queue_push\<close>, \<^verbatim>\<open>usleep\<close>.
  Reading \<^verbatim>\<open>resource->amount\<close> through \<^verbatim>\<open>NULL\<close> is the fault. That read is
  made without the semaphore and only fills the field \<^verbatim>\<open>amount\<close> of the event; it
  sees the memory as the function has it.
\<close>

definition emit_event :: "addr \<Rightarrow> addr option \<Rightarrow> c_int \<Rightarrow> c_int \<Rightarrow> memory \<Rightarrow> fault + memory" where
  "emit_event system resource result_status priority m =
     (case resource of
        None \<Rightarrow> Inl NullDeref
      | Some r \<Rightarrow>
          let event = event_init (Some system) resource result_status priority
                        (res_amount (resources m r))
          in Inr (usleep (SYSTEM_WAIT_TIME * 1000)
                    (m\<lparr>event_queue := event_queue_push (event_queue m) event\<rparr>)))"

definition system_run :: "addr \<Rightarrow> memory \<Rightarrow> fault + memory" where
  "system_run system m =
     (let step1 =
        (if sys_amount_stored (systems m system) = 0 then
           (case system_convert system m of
              (result_status, m1) \<Rightarrow>
                if result_status \<noteq> STATUS_OK then
                  emit_event system (ra_resource (sys_consumed (systems m1 system)))
                    result_status PRIORITY_HIGH m1
                else Inr m1)
         else Inr m)
      in case step1 of
           Inl f \<Rightarrow> Inl f
         | Inr m2 \<Rightarrow>
             if 0 <s sys_amount_stored (systems m2 system) then
               (case system_store_resources system m2 of
                  (result_status, m3) \<Rightarrow>
                    if result_status \<noteq> STATUS_OK then
                      emit_event system (ra_resource (sys_produced (systems m3 system)))
                        result_status PRIORITY_LOW m3
                    else Inr m3)
             else Inr m2)"

text \<open>
  One turn of the loop of \<^verbatim>\<open>system_thread\<close>: \<open>Inr None\<close> when the loop is left
  (\<^verbatim>\<open>status == TERMINATE\<close>), else what \<^verbatim>\<open>system_run\<close> leaves.
\<close>

definition system_thread_iteration :: "addr \<Rightarrow> memory \<Rightarrow> fault + memory option" where
  "system_thread_iteration system m =
     (if sys_status (systems m system) \<noteq> TERMINATE then
        (case system_run system m of Inl f \<Rightarrow> Inl f | Inr m' \<Rightarrow> Inr (Some m'))
      else Inr None)"

section \<open>The manager\<close>

text \<open>
  The \<^verbatim>\<open>for\<close> loop of \<^verbatim>\<open>manager_run\<close> over the slots of the system array, given the
  current \<^verbatim>\<open>status\<close> and \<^verbatim>\<open>event.resource\<close>.
\<close>

fun update_statuses :: "addr list \<Rightarrow> c_int \<Rightarrow> addr option \<Rightarrow> memory \<Rightarrow> memory" where
  "update_statuses [] status resource m = m"
| "update_statuses (current_system # rest) status resource m =
     update_statuses rest status resource
       (if status = TERMINATE \<or> ra_resource (sys_produced (systems m current_system)) = resource
        then set_status current_system status m else m)"

text \<open>
  The body of the \<^verbatim>\<open>while\<close> loop of \<^verbatim>\<open>manager_run\<close> up to the next pop, for the
  event just popped and the value of the local \<^verbatim>\<open>status\<close>, which it returns with the
  memory. The \<^verbatim>\<open>printf\<close> reads \<^verbatim>\<open>event.system->name\<close> and
  \<^verbatim>\<open>event.resource->name\<close>; nothing else of the output is modelled.
\<close>

definition manager_handle_event :: "Event \<Rightarrow> c_int \<Rightarrow> memory \<Rightarrow> fault + c_int \<times> memory" where
  "manager_handle_event event status m =
     (case ev_system event of
        None \<Rightarrow> Inl NullDeref
      | Some s \<Rightarrow>
     (case ev_resource event of
        None \<Rightarrow> Inl NullDeref
      | Some r \<Rightarrow>
          let no_oxygen_flag =
                (ev_status event = STATUS_EMPTY \<and> res_name (resources m r) = ''Oxygen'');
              distance_reached_flag =
                (ev_status event = STATUS_CAPACITY \<and> res_name (resources m r) = ''Distance'');
              need_more_flag =
                (ev_status event = STATUS_LOW \<or> ev_status event = STATUS_EMPTY
                 \<or> ev_status event = STATUS_INSUFFICIENT);
              need_less_flag = (ev_status event = STATUS_CAPACITY);
              status1 =
                (if no_oxygen_flag then TERMINATE
                 else if distance_reached_flag then TERMINATE
                 else if need_more_flag then FAST
                 else if need_less_flag then SLOW
                 else status);
              m1 =
                (if no_oxygen_flag then m\<lparr>simulation_running := 0\<rparr>
                 else if distance_reached_flag then m\<lparr>simulation_running := 0\<rparr>
                 else m)
          in Inr (status1,
                  if no_oxygen_flag \<or> distance_reached_flag \<or> need_more_flag \<or> need_less_flag
                  then update_statuses (system_array m1) status1 (ev_resource event) m1
                  else m1)))"

text \<open>
  \<^verbatim>\<open>manager_run\<close> pops once before the loop and once at the end of each turn, so the
  loop is: pop; if an event was found, handle it and go on.
  \<^verbatim>\<open>display_simulation_state\<close> only prints.
\<close>

function manager_loop :: "c_int \<Rightarrow> memory \<Rightarrow> fault + memory" where
  "manager_loop status m =
     (case event_queue_pop (event_queue m) of
        (None, q) \<Rightarrow> Inr (m\<lparr>event_queue := q\<rparr>)
      | (Some event, q) \<Rightarrow>
          (case manager_handle_event event status (m\<lparr>event_queue := q\<rparr>) of
             Inl f \<Rightarrow> Inl f
           | Inr (status', m') \<Rightarrow> manager_loop status' m'))"
  by pat_completeness auto

termination manager_loop
proof -
  have queue_kept: "event_queue (update_statuses ps status resource m) = event_queue m"
    for ps status resource m
    by (induction ps status resource m rule: update_statuses.induct) (auto simp: set_status_def)
  show ?thesis
    by (relation "measure (\<lambda>(status, m). length (q_head (event_queue m)))")
       (auto simp: event_queue_pop_def manager_handle_event_def Let_def queue_kept
          split: list.splits option.splits if_splits)
qed

declare manager_loop.simps [simp del]

definition manager_run :: "memory \<Rightarrow> fault + memory" where
  "manager_run m = manager_loop STANDARD m"

section \<open>The scenario of \<^verbatim>\<open>main.c\<close>\<close>

text \<open>
  The memory \<^verbatim>\<open>load_data\<close> sets up after \<^verbatim>\<open>manager_init\<close>: the resources Fuel,
  Oxygen, Energy and Distance at the addresses 1 to 4 of the resource heap, the systems
  Propulsion, Life Support, Crew and Generator at the addresses 1 to 4 of the system heap.
\<close>

definition fuel :: Resource where
  "fuel = \<lparr>res_name = ''Fuel'', res_amount = 1000, res_max_capacity = 1000\<rparr>"

definition oxygen :: Resource where
  "oxygen = \<lparr>res_name = ''Oxygen'', res_amount = 20, res_max_capacity = 50\<rparr>"

definition energy :: Resource where
  "energy = \<lparr>res_name = ''Energy'', res_amount = 30, res_max_capacity = 50\<rparr>"

definition distance :: Resource where
  "distance = \<lparr>res_name = ''Distance'', res_amount = 0, res_max_capacity = 5000\<rparr>"

text \<open>
  \<^verbatim>\<open>system_create\<close> of \<^verbatim>\<open>system.c\<close>, as the value of the object it allocates.
\<close>

definition system_create :: "string \<Rightarrow> ResourceAmount \<Rightarrow> ResourceAmount \<Rightarrow> c_int \<Rightarrow> System" where
  "system_create name consumed produced processing_time =
     \<lparr>sys_name = name, sys_consumed = consumed, sys_produced = produced,
      sys_amount_stored = 0, sys_processing_time = processing_time, sys_status = STANDARD\<rparr>"

definition propulsion_system :: System where
  "propulsion_system =
     system_create ''Propulsion'' \<lparr>ra_resource = Some 1, ra_amount = 5\<rparr>
       \<lparr>ra_resource = Some 4, ra_amount = 25\<rparr> 50"

definition life_support_system :: System where
  "life_support_system =
     system_create ''Life Support'' \<lparr>ra_resource = Some 3, ra_amount = 7\<rparr>
       \<lparr>ra_resource = Some 2, ra_amount = 4\<rparr> 10"

definition crew_capsule_system :: System where
  "crew_capsule_system =
     system_create ''Crew'' \<lparr>ra_resource = Some 2, ra_amount = 1\<rparr>
       \<lparr>ra_resource = None, ra_amount = 0\<rparr> 2"

definition generator_system :: System where
  "generator_system =
     system_create ''Generator'' \<lparr>ra_resource = Some 1, ra_amount = 5\<rparr>
       \<lparr>ra_resource = Some 3, ra_amount = 10\<rparr> 20"

definition load_data :: memory where
  "load_data =
     \<lparr>resources = (\<lambda>a. fuel)(2 := oxygen, 3 := energy, 4 := distance),
      systems = (\<lambda>a. propulsion_system)
                  (2 := life_support_system, 3 := crew_capsule_system, 4 := generator_system),
      simulation_running = 1,
      system_array = [1, 2, 3, 4],
      event_queue = event_queue_init,
      usleeps = []\<rparr>"

section \<open>Runs of operations\<close>

text \<open>Pushing a list of events, first element first, and popping \<open>n\<close> times in a row.\<close>

definition push_all :: "Event list \<Rightarrow> EventQueue \<Rightarrow> EventQueue" where
  "push_all events queue = foldl event_queue_push queue events"

fun pop_n :: "nat \<Rightarrow> EventQueue \<Rightarrow> Event option list \<times> EventQueue" where
  "pop_n 0 queue = ([], queue)"
| "pop_n (Suc n) queue =
     (case event_queue_pop queue of
        (r, queue') \<Rightarrow> (case pop_n n queue' of (rs, queue'') \<Rightarrow> (r # rs, queue'')))"

text \<open>Four events of the scenario.\<close>

definition crew_oxygen_empty :: Event where
  "crew_oxygen_empty = event_init (Some 3) (Some 2) STATUS_EMPTY PRIORITY_HIGH 0"

definition generator_energy_full :: Event where
  "generator_energy_full = event_init (Some 4) (Some 3) STATUS_CAPACITY PRIORITY_LOW 50"

definition propulsion_distance_full :: Event where
  "propulsion_distance_full = event_init (Some 1) (Some 4) STATUS_CAPACITY PRIORITY_LOW 5000"

definition life_support_energy_short :: Event where
  "life_support_energy_short = event_init (Some 2) (Some 3) STATUS_INSUFFICIENT PRIORITY_HIGH 2"

text \<open>
  The operations on the amounts of the resources: a call of \<^verbatim>\<open>system_convert\<close> or of
  \<^verbatim>\<open>system_store_resources\<close> by the system at an address, the amount it requests, and
  the memories a sequence of such calls goes through. Each call holds the semaphore of its
  resource from the comparison to the write, so the calls of concurrent threads on one
  resource take effect one after the other.
\<close>

datatype resource_op = Consume addr | Produce addr

fun requested :: "resource_op \<Rightarrow> memory \<Rightarrow> c_int" where
  "requested (Consume system) m = ra_amount (sys_consumed (systems m system))"
| "requested (Produce system) m = sys_amount_stored (systems m system)"

fun apply_op :: "resource_op \<Rightarrow> memory \<Rightarrow> memory" where
  "apply_op (Consume system) m = snd (system_convert system m)"
| "apply_op (Produce system) m = snd (system_store_resources system m)"

fun run_ops :: "resource_op list \<Rightarrow> memory \<Rightarrow> memory list" where
  "run_ops [] m = [m]"
| "run_ops (op # ops) m = m # run_ops ops (apply_op op m)"

fun requests_nonneg :: "resource_op list \<Rightarrow> memory \<Rightarrow> bool" where
  "requests_nonneg [] m = True"
| "requests_nonneg (op # ops) m = (0 \<le>s requested op m \<and> requests_nonneg ops (apply_op op m))"

definition amount_in_bounds :: "Resource \<Rightarrow> bool" where
  "amount_in_bounds res = (0 \<le>s res_amount res \<and> res_amount res \<le>s res_max_capacity res)"

text \<open>One call after another, as long as none faults.\<close>

definition and_then :: "fault + memory \<Rightarrow> (memory \<Rightarrow> fault + memory) \<Rightarrow> fault + memory" where
  "and_then r f = (case r of Inl e \<Rightarrow> Inl e | Inr m \<Rightarrow> f m)"

text \<open>The scenario with no oxygen left and 2 units of energy.\<close>

definition oxygen_depleted :: memory where
  "oxygen_depleted = set_amount 2 0 (set_amount 3 2 load_data)"

text \<open>
  The scenario with no oxygen left and Life Support holding 4 units of oxygen it has
  produced and not yet stored.
\<close>

definition oxygen_refill :: memory where
  "oxygen_refill = set_amount_stored 2 4 (set_amount 2 0 load_data)"

text \<open>The scenario with a fifth system that consumes nothing and produces 10 units of energy.\<close>

definition pure_source :: memory where
  "pure_source =
     load_data\<lparr>systems := (systems load_data)
       (5 := system_create ''Source'' \<lparr>ra_resource = None, ra_amount = 0\<rparr>
               \<lparr>ra_resource = Some 3, ra_amount = 10\<rparr> 20),
       system_array := [1, 2, 3, 4, 5]\<rparr>"

section \<open>Signed arithmetic without overflow\<close>

lemma sint_sub_nonneg:
  fixes a b :: c_int
  assumes "0 \<le>s b" "b \<le>s a"
  shows "sint (a - b) = sint a - sint b"
proof -
  have "sint a < 2 ^ 31" using sint_lt [of a] by simp
  moreover have "0 \<le> sint b" "sint b \<le> sint a" using assms by (simp_all add: word_sle_eq)
  ultimately have "- (2 ^ 31) \<le> sint a - sint b \<and> sint a - sint b < 2 ^ 31" by simp
  then show ?thesis
    by (simp add: sint_word_ariths signed_take_bit_int_eq_self)
qed

lemma sint_sub_both_nonneg:
  fixes a b :: c_int
  assumes "0 \<le>s a" "0 \<le>s b"
  shows "sint (a - b) = sint a - sint b"
proof -
  have "sint a < 2 ^ 31" "sint b < 2 ^ 31" using sint_lt [of a] sint_lt [of b] by simp_all
  moreover have "0 \<le> sint b" "0 \<le> sint a" using assms by (simp_all add: word_sle_eq)
  ultimately have "- (2 ^ 31) \<le> sint a - sint b \<and> sint a - sint b < 2 ^ 31" by simp
  then show ?thesis
    by (simp add: sint_word_ariths signed_take_bit_int_eq_self)
qed

lemma sint_add_bounded:
  fixes a b c :: c_int
  assumes "0 \<le> sint a" "0 \<le> sint b" "sint a + sint b \<le> sint c"
  shows "sint (a + b) = sint a + sint b"
proof -
  have "sint c < 2 ^ 31" using sint_lt [of c] by simp
  with assms have "- (2 ^ 31) \<le> sint a + sint b \<and> sint a + sint b < 2 ^ 31" by simp
  then show ?thesis
    by (simp add: sint_word_ariths signed_take_bit_int_eq_self)
qed

lemma system_convert_eq:
  "system_convert system m =
     (case ra_resource (sys_consumed (systems m system)) of
        None \<Rightarrow> (STATUS_OK, m)
      | Some r \<Rightarrow>
          if ra_amount (sys_consumed (systems m system)) \<le>s res_amount (resources m r) then
            let m1 = set_amount r
                       (res_amount (resources m r) - ra_amount (sys_consumed (systems m system))) m;
                m2 = system_simulate_process_time system m1;
                m3 = (case ra_resource (sys_produced (systems m2 system)) of
                        None \<Rightarrow> m2
                      | Some p \<Rightarrow>
                          set_amount_stored system
                            (sys_amount_stored (systems m2 system)
                               + ra_amount (sys_produced (systems m2 system))) m2)
            in (STATUS_OK, m3)
          else
            (if res_amount (resources m r) = 0 then STATUS_EMPTY else STATUS_INSUFFICIENT, m))"
  unfolding system_convert_def system_convert_with_def Let_def by (rule refl)

lemmas mem_simps = set_amount_def set_amount_stored_def set_status_def usleep_def
  system_simulate_process_time_def Let_def

lemmas event_defs = crew_oxygen_empty_def generator_energy_full_def propulsion_distance_full_def
  life_support_energy_short_def event_init_def

lemmas scenario_defs = load_data_def fuel_def oxygen_def energy_def distance_def
  system_create_def propulsion_system_def life_support_system_def crew_capsule_system_def
  generator_system_def

section \<open>The event queue\<close>

lemma q_head_push: "q_head (event_queue_push q e) = push_after e (q_head q)"
  by (auto simp: event_queue_push_def Let_def split: list.splits)

lemma q_size_push: "q_size (event_queue_push q e) = q_size q + 1"
  by (simp add: event_queue_push_def Let_def)

lemma set_push_after: "set (push_after e xs) = insert e (set xs)"
  by (induction xs) auto

lemma mset_push_after: "mset (push_after e xs) = add_mset e (mset xs)"
  by (induction xs) auto

lemma sorted_push_after:
  "sorted_wrt (\<lambda>a b. ev_priority b \<le>s ev_priority a) xs \<Longrightarrow>
   sorted_wrt (\<lambda>a b. ev_priority b \<le>s ev_priority a) (push_after e xs)"
  by (induction xs) (auto simp: set_push_after)

text \<open>
  In a queue in priority order the new event goes behind every event of its own priority:
  the nodes behind the place where it is linked in have a strictly lower priority.
\<close>

lemma filter_push_after:
  "sorted_wrt (\<lambda>a b. ev_priority b \<le>s ev_priority a) xs \<Longrightarrow>
   filter (\<lambda>x. ev_priority x = k) (push_after e xs) =
   filter (\<lambda>x. ev_priority x = k) xs @ (if ev_priority e = k then [e] else [])"
proof (induction xs)
  case Nil
  then show ?case by simp
next
  case (Cons n rest)
  show ?case
  proof (cases "ev_priority e \<le>s ev_priority n")
    case True
    with Cons show ?thesis by simp
  next
    case False
    then have lt: "ev_priority n <s ev_priority e" by simp
    have "\<forall>x \<in> set (n # rest). ev_priority x <s ev_priority e"
      using Cons.prems lt by auto
    then have "ev_priority e = k \<Longrightarrow> filter (\<lambda>x. ev_priority x = k) (n # rest) = []"
      by (auto simp: filter_empty_conv)
    with False show ?thesis by auto
  qed
qed

lemma push_all_sorted_filter:
  "sorted_wrt (\<lambda>a b. ev_priority b \<le>s ev_priority a) (q_head q) \<Longrightarrow>
   sorted_wrt (\<lambda>a b. ev_priority b \<le>s ev_priority a) (q_head (push_all es q)) \<and>
   filter (\<lambda>x. ev_priority x = k) (q_head (push_all es q)) =
     filter (\<lambda>x. ev_priority x = k) (q_head q) @ filter (\<lambda>x. ev_priority x = k) es"
proof (induction es arbitrary: q)
  case Nil
  then show ?case by (simp add: push_all_def)
next
  case (Cons e es)
  have s: "sorted_wrt (\<lambda>a b. ev_priority b \<le>s ev_priority a) (q_head (event_queue_push q e))"
    using Cons.prems by (simp add: q_head_push sorted_push_after)
  from Cons.IH [OF s] Cons.prems show ?case
    by (simp add: push_all_def q_head_push filter_push_after)
qed

lemma mset_push_all: "mset (q_head (push_all es q)) = mset (q_head q) + mset es"
  by (induction es arbitrary: q) (simp_all add: push_all_def q_head_push mset_push_after)

lemma length_push_all: "length (q_head (push_all es q)) = length (q_head q) + length es"
  using mset_push_all [of es q, THEN arg_cong, of size] by simp

lemma q_size_push_all: "q_size (push_all es q) = q_size q + of_nat (length es)"
  by (induction es arbitrary: q) (simp_all add: push_all_def q_size_push)

lemma pop_n_all:
  "pop_n (length xs) \<lparr>q_head = xs, q_size = n\<rparr> =
     (map Some xs, \<lparr>q_head = [], q_size = n - of_nat (length xs)\<rparr>)"
  by (induction xs arbitrary: n) (simp_all add: event_queue_pop_def)

lemma pop_n_push_all:
  "pop_n (length es) (push_all es event_queue_init) =
     (map Some (q_head (push_all es event_queue_init)), event_queue_init)"
proof -
  let ?q = "push_all es event_queue_init"
  have len: "length (q_head ?q) = length es"
    by (simp add: length_push_all event_queue_init_def)
  have q: "?q = \<lparr>q_head = q_head ?q, q_size = of_nat (length es)\<rparr>"
    by (simp add: q_size_push_all event_queue_init_def)
  show ?thesis
    using pop_n_all [of "q_head ?q" "of_nat (length es)"] len q
    by (simp add: event_queue_init_def)
qed

lemma subseq_pair_nth:
  assumes "i < j" "j < length xs"
  shows "subseq [xs ! i, xs ! j] xs"
proof -
  have xs: "xs = take i xs @ xs ! i # drop (Suc i) xs"
    using assms by (simp add: id_take_nth_drop)
  have "xs ! j = drop (Suc i) xs ! (j - Suc i)"
    using assms by simp
  moreover have "j - Suc i < length (drop (Suc i) xs)"
    using assms by simp
  ultimately have "xs ! j \<in> set (drop (Suc i) xs)"
    by (metis nth_mem)
  then have "subseq [xs ! j] (drop (Suc i) xs)"
    by (simp add: subseq_singleton_left)
  then have "subseq [xs ! i, xs ! j] (xs ! i # drop (Suc i) xs)"
    by simp
  then have "subseq ([] @ [xs ! i, xs ! j]) (take i xs @ xs ! i # drop (Suc i) xs)"
    by (intro list_emb_append_mono) simp_all
  with xs show ?thesis by simp
qed

lemma subseq_pair_filter:
  assumes "subseq [a, b] xs" "P a" "P b" "filter P xs = filter P ys"
  shows "subseq [a, b] ys"
proof -
  have "subseq (filter P [a, b]) (filter P xs)"
    using assms(1) by (rule subseq_filter)
  then have "subseq [a, b] (filter P ys)"
    using assms by simp
  then show ?thesis
    using subseq_order.order_trans subseq_filter_left by blast
qed

text \<open>
  C2. After any sequence of pushes onto the empty queue, \<open>es\<close> in the order pushed:
  the queue read from its head is in non-increasing priority order; for every priority
  \<open>k\<close> the events of priority \<open>k\<close> stand in the queue in the order in which they were
  pushed; so of two events of equal priority the one pushed first (\<open>es ! i\<close>, \<open>i < j\<close>)
  stands before the other (\<open>subseq\<close>: the two occur in the queue in this order); and
  popping as many times as was pushed returns the events in the order of the queue, head
  first.
\<close>

theorem event_queue_priority_fifo:
  "sorted_wrt (\<lambda>a b. ev_priority b \<le>s ev_priority a) (q_head (push_all es event_queue_init)) \<and>
   (\<forall>k. filter (\<lambda>e. ev_priority e = k) (q_head (push_all es event_queue_init)) =
        filter (\<lambda>e. ev_priority e = k) es) \<and>
   (\<forall>i j. i < j \<and> j < length es \<and> ev_priority (es ! i) = ev_priority (es ! j) \<longrightarrow>
        subseq [es ! i, es ! j] (q_head (push_all es event_queue_init))) \<and>
   fst (pop_n (length es) (push_all es event_queue_init)) =
     map Some (q_head (push_all es event_queue_init))"
proof -
  let ?q = "push_all es event_queue_init"
  have init: "sorted_wrt (\<lambda>a b. ev_priority b \<le>s ev_priority a) (q_head event_queue_init)"
    by (simp add: event_queue_init_def)
  have sorted: "sorted_wrt (\<lambda>a b. ev_priority b \<le>s ev_priority a) (q_head ?q)"
    using push_all_sorted_filter [OF init, where es = es] by blast
  have tier: "filter (\<lambda>e. ev_priority e = k) es = filter (\<lambda>e. ev_priority e = k) (q_head ?q)" for k
    using push_all_sorted_filter [OF init, where es = es and k = k]
    by (simp add: event_queue_init_def)
  have pair: "subseq [es ! i, es ! j] (q_head ?q)"
    if "i < j" "j < length es" "ev_priority (es ! i) = ev_priority (es ! j)" for i j
    by (rule subseq_pair_filter [where P = "\<lambda>e. ev_priority e = ev_priority (es ! j)",
          OF subseq_pair_nth [OF that(1,2)] that(3) refl tier])
  have pops: "fst (pop_n (length es) ?q) = map Some (q_head ?q)"
    by (simp add: pop_n_push_all)
  from sorted tier pair pops show ?thesis by simp
qed

theorem event_queue_priority_fifo_witness:
  "(0::nat) < 2 \<and> 2 < length [generator_energy_full, crew_oxygen_empty, propulsion_distance_full] \<and>
   ev_priority ([generator_energy_full, crew_oxygen_empty, propulsion_distance_full] ! 0) =
   ev_priority ([generator_energy_full, crew_oxygen_empty, propulsion_distance_full] ! 2) \<and>
   subseq [generator_energy_full, propulsion_distance_full]
     (q_head (push_all [generator_energy_full, crew_oxygen_empty, propulsion_distance_full] event_queue_init)) \<and>
   q_head (push_all [generator_energy_full, crew_oxygen_empty, propulsion_distance_full] event_queue_init)
     = [crew_oxygen_empty, generator_energy_full, propulsion_distance_full]"
proof -
  let ?es = "[generator_energy_full, crew_oxygen_empty, propulsion_distance_full]"
  have h: "(0::nat) < 2 \<and> 2 < length ?es \<and> ev_priority (?es ! 0) = ev_priority (?es ! 2)"
    by (simp add: event_defs)
  have q: "q_head (push_all ?es event_queue_init) = [crew_oxygen_empty, generator_energy_full, propulsion_distance_full]"
    by (simp add: push_all_def event_queue_push_def event_queue_init_def event_defs word_sle_eq word_sless_alt)
  from event_queue_priority_fifo [of ?es]
  have "\<forall>i j. i < j \<and> j < length ?es \<and> ev_priority (?es ! i) = ev_priority (?es ! j) \<longrightarrow>
        subseq [?es ! i, ?es ! j] (q_head (push_all ?es event_queue_init))"
    by blast
  then have "subseq [?es ! 0, ?es ! 2] (q_head (push_all ?es event_queue_init))"
    using h by blast
  then show ?thesis using h q by simp
qed

text \<open>
  C5. Pushing the events \<open>es\<close> onto the empty queue and popping \<open>length es\<close> times:
  every pop returns an event, the events returned are those pushed, each as often as it
  was pushed, and the queue is left as \<^verbatim>\<open>event_queue_init\<close> leaves it (no node,
  \<^verbatim>\<open>size\<close> 0).
\<close>

theorem push_all_pop_all:
  "\<exists>out. pop_n (length es) (push_all es event_queue_init) = (map Some out, event_queue_init) \<and>
         mset out = mset es"
proof -
  have "mset (q_head (push_all es event_queue_init)) = mset es"
    by (simp add: mset_push_all event_queue_init_def)
  with pop_n_push_all [of es] show ?thesis by blast
qed

section \<open>Consuming and producing\<close>

text \<open>
  The call of \<^verbatim>\<open>system_convert\<close> with no step of another thread before the read of
  line 114, for a system that consumes the resource at \<open>r\<close> and requests a positive
  amount: at amount 0 it returns \<^verbatim>\<open>STATUS_EMPTY\<close>; at an amount above 0 and below the
  request it returns \<^verbatim>\<open>STATUS_INSUFFICIENT\<close>; in both cases nothing in memory changes.
  At an amount of at least the request it returns \<^verbatim>\<open>STATUS_OK\<close> and the amount goes
  down by the request, as integers.
\<close>

lemma system_convert_consume:
  assumes "ra_resource (sys_consumed (systems m system)) = Some r"
    and "0 <s ra_amount (sys_consumed (systems m system))"
  shows "(res_amount (resources m r) = 0 \<longrightarrow> system_convert system m = (STATUS_EMPTY, m)) \<and>
    (0 <s res_amount (resources m r) \<and> res_amount (resources m r) <s ra_amount (sys_consumed (systems m system)) \<longrightarrow>
       system_convert system m = (STATUS_INSUFFICIENT, m)) \<and>
    (ra_amount (sys_consumed (systems m system)) \<le>s res_amount (resources m r) \<longrightarrow>
       fst (system_convert system m) = STATUS_OK \<and>
       sint (res_amount (resources (snd (system_convert system m)) r)) =
         sint (res_amount (resources m r)) - sint (ra_amount (sys_consumed (systems m system))))"
proof (intro conjI impI)
  assume "res_amount (resources m r) = 0"
  with assms show "system_convert system m = (STATUS_EMPTY, m)"
    by (simp add: system_convert_eq Let_def)
next
  assume "0 <s res_amount (resources m r) \<and> res_amount (resources m r) <s ra_amount (sys_consumed (systems m system))"
  with assms show "system_convert system m = (STATUS_INSUFFICIENT, m)"
    by (auto simp: system_convert_eq Let_def)
next
  assume "ra_amount (sys_consumed (systems m system)) \<le>s res_amount (resources m r)"
  with assms show "fst (system_convert system m) = STATUS_OK"
    by (simp add: system_convert_eq Let_def)
next
  assume le: "ra_amount (sys_consumed (systems m system)) \<le>s res_amount (resources m r)"
  have "res_amount (resources (snd (system_convert system m)) r) =
        res_amount (resources m r) - ra_amount (sys_consumed (systems m system))"
    using assms le by (simp add: system_convert_eq mem_simps split: option.splits)
  moreover have "0 \<le>s ra_amount (sys_consumed (systems m system))"
    using assms(2) by simp
  ultimately show "sint (res_amount (resources (snd (system_convert system m)) r)) =
         sint (res_amount (resources m r)) - sint (ra_amount (sys_consumed (systems m system)))"
    using le by (simp add: sint_sub_nonneg)
qed

lemma system_convert_consume_scenario:
  "system_convert 3 (set_amount 2 0 load_data) = (STATUS_EMPTY, set_amount 2 0 load_data) \<and>
   system_convert 2 (set_amount 3 2 load_data) = (STATUS_INSUFFICIENT, set_amount 3 2 load_data) \<and>
   fst (system_convert 3 load_data) = STATUS_OK \<and>
   sint (res_amount (resources (snd (system_convert 3 load_data)) 2)) = 19"
proof -
  let ?empty = "set_amount 2 0 load_data"
  let ?short = "set_amount 3 2 load_data"
  have e: "ra_resource (sys_consumed (systems ?empty 3)) = Some 2"
    "0 <s ra_amount (sys_consumed (systems ?empty 3))"
    "res_amount (resources ?empty 2) = 0"
    by (simp_all add: scenario_defs set_amount_def word_sless_alt)
  have s: "ra_resource (sys_consumed (systems ?short 2)) = Some 3"
    "0 <s ra_amount (sys_consumed (systems ?short 2))"
    "0 <s res_amount (resources ?short 3) \<and>
     res_amount (resources ?short 3) <s ra_amount (sys_consumed (systems ?short 2))"
    by (simp_all add: scenario_defs set_amount_def word_sless_alt)
  have k: "ra_resource (sys_consumed (systems load_data 3)) = Some 2"
    "0 <s ra_amount (sys_consumed (systems load_data 3))"
    "ra_amount (sys_consumed (systems load_data 3)) \<le>s res_amount (resources load_data 2)"
    "sint (res_amount (resources load_data 2)) - sint (ra_amount (sys_consumed (systems load_data 3))) = 19"
    by (simp_all add: scenario_defs word_sless_alt word_sle_eq)
  from system_convert_consume [OF e(1,2)] e(3)
  have 1: "system_convert 3 ?empty = (STATUS_EMPTY, ?empty)" by blast
  from system_convert_consume [OF s(1,2)] s(3)
  have 2: "system_convert 2 ?short = (STATUS_INSUFFICIENT, ?short)" by blast
  from system_convert_consume [OF k(1,2)] k(3)
  have 3: "fst (system_convert 3 load_data) = STATUS_OK \<and>
       sint (res_amount (resources (snd (system_convert 3 load_data)) 2)) =
         sint (res_amount (resources load_data 2)) - sint (ra_amount (sys_consumed (systems load_data 3)))"
    by blast
  from 1 2 3 k(4) show ?thesis by simp
qed

text \<open>
  Among other threads: a call that returns \<^verbatim>\<open>STATUS_OK\<close> is the call above, whatever
  the others do; a call whose comparison fails takes its status from the amount the others
  have left.
\<close>

lemma system_convert_with_ok:
  assumes "fst (system_convert_with others system m) = STATUS_OK"
  shows "system_convert_with others system m = system_convert system m"
  using assms
  by (auto simp: system_convert_eq system_convert_with_def Let_def split: option.splits if_splits)

lemma system_convert_with_failure:
  assumes "ra_resource (sys_consumed (systems m system)) = Some r"
    and "res_amount (resources m r) <s ra_amount (sys_consumed (systems m system))"
  shows "system_convert_with others system m =
     (if res_amount (resources (others m) r) = 0 then STATUS_EMPTY else STATUS_INSUFFICIENT, others m)"
  using assms by (simp add: system_convert_with_def Let_def)

text \<open>
  C3 fails on the code. In \<open>oxygen_refill\<close> the Crew asks for 1 unit of oxygen and the
  amount is 0. The comparison under the semaphore fails; between the release of the
  semaphore and the read of line 114 Life Support stores its 4 units
  (\<^verbatim>\<open>system_store_resources\<close>, under the same semaphore); the read sees 4 and
  \<^verbatim>\<open>system_convert\<close> returns \<^verbatim>\<open>STATUS_INSUFFICIENT\<close> for an amount that was 0 when it
  was compared, with 4 units in store and 1 requested. Neither order of the two calls gives
  this: the Crew first gets \<^verbatim>\<open>STATUS_EMPTY\<close>, Life Support first gives the Crew
  \<^verbatim>\<open>STATUS_OK\<close>.
\<close>

theorem system_convert_reads_after_release:
  "res_amount (resources oxygen_refill 2) = 0 \<and>
   sys_consumed (systems oxygen_refill 3) = \<lparr>ra_resource = Some 2, ra_amount = 1\<rparr> \<and>
   system_convert_with (\<lambda>m. snd (system_store_resources 2 m)) 3 oxygen_refill =
     (STATUS_INSUFFICIENT, set_amount_stored 2 0 (set_amount 2 4 oxygen_refill)) \<and>
   system_convert 3 oxygen_refill = (STATUS_EMPTY, oxygen_refill) \<and>
   fst (system_convert 3 (snd (system_store_resources 2 oxygen_refill))) = STATUS_OK"
  by (simp add: system_convert_eq system_convert_with_def system_store_resources_def mem_simps
        oxygen_refill_def scenario_defs word_sle_eq word_sless_alt)

text \<open>
  C4. A system that produces the resource at \<open>r\<close> and holds a positive
  \<^verbatim>\<open>amount_stored\<close>, the requested deposit; the resource has a non-negative amount and
  capacity, as in the data model, and \<open>available\<close> is the capacity minus the amount, as
  integers. If the request is at most \<open>available\<close>, \<^verbatim>\<open>system_store_resources\<close> returns
  \<^verbatim>\<open>STATUS_OK\<close>, the amount goes up by the request and \<^verbatim>\<open>amount_stored\<close> is 0. If
  \<open>available\<close> is positive and below the request, it returns \<^verbatim>\<open>STATUS_CAPACITY\<close>, the
  amount is the capacity and \<^verbatim>\<open>amount_stored\<close> keeps the request minus \<open>available\<close>.
  If \<open>available\<close> is 0, it returns \<^verbatim>\<open>STATUS_CAPACITY\<close> and nothing in memory changes.
\<close>

theorem system_store_resources_produce:
  assumes "ra_resource (sys_produced (systems m system)) = Some r"
    and "0 <s sys_amount_stored (systems m system)"
    and "0 \<le>s res_amount (resources m r)" and "0 \<le>s res_max_capacity (resources m r)"
  shows "(sint (sys_amount_stored (systems m system)) \<le> sint (res_max_capacity (resources m r)) - sint (res_amount (resources m r)) \<longrightarrow>
       fst (system_store_resources system m) = STATUS_OK \<and>
       sint (res_amount (resources (snd (system_store_resources system m)) r)) =
         sint (res_amount (resources m r)) + sint (sys_amount_stored (systems m system)) \<and>
       sys_amount_stored (systems (snd (system_store_resources system m)) system) = 0) \<and>
    (0 < sint (res_max_capacity (resources m r)) - sint (res_amount (resources m r)) \<and>
     sint (res_max_capacity (resources m r)) - sint (res_amount (resources m r)) < sint (sys_amount_stored (systems m system)) \<longrightarrow>
       fst (system_store_resources system m) = STATUS_CAPACITY \<and>
       res_amount (resources (snd (system_store_resources system m)) r) = res_max_capacity (resources m r) \<and>
       sint (sys_amount_stored (systems (snd (system_store_resources system m)) system)) =
         sint (sys_amount_stored (systems m system)) -
           (sint (res_max_capacity (resources m r)) - sint (res_amount (resources m r)))) \<and>
    (sint (res_max_capacity (resources m r)) - sint (res_amount (resources m r)) = 0 \<longrightarrow>
       system_store_resources system m = (STATUS_CAPACITY, m))"
proof -
  let ?req = "sys_amount_stored (systems m system)"
  let ?amt = "res_amount (resources m r)"
  let ?max = "res_max_capacity (resources m r)"
  have av: "sint (?max - ?amt) = sint ?max - sint ?amt"
    by (rule sint_sub_both_nonneg [OF assms(4) assms(3)])
  have req0: "?req \<noteq> 0" "0 < sint ?req"
    using assms(2) by (auto simp: word_sless_alt)
  have amt0: "0 \<le> sint ?amt" using assms(3) by (simp add: word_sle_eq)
  show ?thesis
  proof (intro conjI impI)
    assume h: "sint ?req \<le> sint ?max - sint ?amt"
    then have c: "?req \<le>s ?max - ?amt" by (simp add: word_sle_eq av)
    show "fst (system_store_resources system m) = STATUS_OK"
      using assms(1) req0 c by (simp add: system_store_resources_def Let_def)
    have "res_amount (resources (snd (system_store_resources system m)) r) = ?amt + ?req"
      using assms(1) req0 c by (simp add: system_store_resources_def mem_simps)
    moreover have "sint (?amt + ?req) = sint ?amt + sint ?req"
      using amt0 req0 h by (intro sint_add_bounded [where c = ?max]) simp_all
    ultimately show "sint (res_amount (resources (snd (system_store_resources system m)) r)) = sint ?amt + sint ?req"
      by simp
    show "sys_amount_stored (systems (snd (system_store_resources system m)) system) = 0"
      using assms(1) req0 c by (simp add: system_store_resources_def mem_simps)
  next
    assume h: "0 < sint ?max - sint ?amt \<and> sint ?max - sint ?amt < sint ?req"
    then have c: "\<not> ?req \<le>s ?max - ?amt" "0 <s ?max - ?amt"
      by (simp_all add: word_sle_eq word_sless_alt av)
    show "fst (system_store_resources system m) = STATUS_CAPACITY"
      using assms(1) req0 c by (simp add: system_store_resources_def Let_def)
    show "res_amount (resources (snd (system_store_resources system m)) r) = ?max"
      using assms(1) req0 c by (simp add: system_store_resources_def mem_simps)
    have "sys_amount_stored (systems (snd (system_store_resources system m)) system) = ?req - (?max - ?amt)"
      using assms(1) req0 c by (simp add: system_store_resources_def mem_simps)
    moreover have "sint (?req - (?max - ?amt)) = sint ?req - sint (?max - ?amt)"
      using h c by (intro sint_sub_nonneg) (simp_all add: word_sle_eq word_sless_alt av)
    ultimately show "sint (sys_amount_stored (systems (snd (system_store_resources system m)) system)) =
         sint ?req - (sint ?max - sint ?amt)"
      by (simp add: av)
  next
    assume h: "sint ?max - sint ?amt = 0"
    then have c: "\<not> ?req \<le>s ?max - ?amt" "\<not> 0 <s ?max - ?amt"
      using req0 by (simp_all add: word_sle_eq word_sless_alt av)
    show "system_store_resources system m = (STATUS_CAPACITY, m)"
      using assms(1) req0 c by (simp add: system_store_resources_def Let_def)
  qed
qed

theorem system_store_resources_produce_witness:
  "fst (system_store_resources 1 (set_amount_stored 1 25 load_data)) = STATUS_OK \<and>
   sint (res_amount (resources (snd (system_store_resources 1 (set_amount_stored 1 25 load_data))) 4)) = 25 \<and>
   sys_amount_stored (systems (snd (system_store_resources 1 (set_amount_stored 1 25 load_data))) 1) = 0 \<and>
   fst (system_store_resources 1 (set_amount 4 4990 (set_amount_stored 1 25 load_data))) = STATUS_CAPACITY \<and>
   res_amount (resources (snd (system_store_resources 1 (set_amount 4 4990 (set_amount_stored 1 25 load_data)))) 4) = 5000 \<and>
   sint (sys_amount_stored (systems (snd (system_store_resources 1 (set_amount 4 4990 (set_amount_stored 1 25 load_data)))) 1)) = 15 \<and>
   system_store_resources 1 (set_amount 4 5000 (set_amount_stored 1 25 load_data)) =
     (STATUS_CAPACITY, set_amount 4 5000 (set_amount_stored 1 25 load_data))"
proof -
  let ?room = "set_amount_stored 1 25 load_data"
  let ?part = "set_amount 4 4990 (set_amount_stored 1 25 load_data)"
  let ?full = "set_amount 4 5000 (set_amount_stored 1 25 load_data)"
  have r: "ra_resource (sys_produced (systems ?room 1)) = Some 4"
    "0 <s sys_amount_stored (systems ?room 1)"
    "0 \<le>s res_amount (resources ?room 4)" "0 \<le>s res_max_capacity (resources ?room 4)"
    "sint (sys_amount_stored (systems ?room 1)) \<le>
       sint (res_max_capacity (resources ?room 4)) - sint (res_amount (resources ?room 4))"
    "sint (res_amount (resources ?room 4)) + sint (sys_amount_stored (systems ?room 1)) = 25"
    by (simp_all add: scenario_defs set_amount_def set_amount_stored_def word_sless_alt word_sle_eq)
  have p: "ra_resource (sys_produced (systems ?part 1)) = Some 4"
    "0 <s sys_amount_stored (systems ?part 1)"
    "0 \<le>s res_amount (resources ?part 4)" "0 \<le>s res_max_capacity (resources ?part 4)"
    "0 < sint (res_max_capacity (resources ?part 4)) - sint (res_amount (resources ?part 4)) \<and>
     sint (res_max_capacity (resources ?part 4)) - sint (res_amount (resources ?part 4))
       < sint (sys_amount_stored (systems ?part 1))"
    "res_max_capacity (resources ?part 4) = 5000"
    "sint (sys_amount_stored (systems ?part 1)) -
       (sint (res_max_capacity (resources ?part 4)) - sint (res_amount (resources ?part 4))) = 15"
    by (simp_all add: scenario_defs set_amount_def set_amount_stored_def word_sless_alt word_sle_eq)
  have f: "ra_resource (sys_produced (systems ?full 1)) = Some 4"
    "0 <s sys_amount_stored (systems ?full 1)"
    "0 \<le>s res_amount (resources ?full 4)" "0 \<le>s res_max_capacity (resources ?full 4)"
    "sint (res_max_capacity (resources ?full 4)) - sint (res_amount (resources ?full 4)) = 0"
    by (simp_all add: scenario_defs set_amount_def set_amount_stored_def word_sless_alt word_sle_eq)
  from system_store_resources_produce [OF r(1-4)] r(5)
  have 1: "fst (system_store_resources 1 ?room) = STATUS_OK \<and>
       sint (res_amount (resources (snd (system_store_resources 1 ?room)) 4)) =
         sint (res_amount (resources ?room 4)) + sint (sys_amount_stored (systems ?room 1)) \<and>
       sys_amount_stored (systems (snd (system_store_resources 1 ?room)) 1) = 0"
    by blast
  from system_store_resources_produce [OF p(1-4)] p(5)
  have 2: "fst (system_store_resources 1 ?part) = STATUS_CAPACITY \<and>
       res_amount (resources (snd (system_store_resources 1 ?part)) 4) = res_max_capacity (resources ?part 4) \<and>
       sint (sys_amount_stored (systems (snd (system_store_resources 1 ?part)) 1)) =
         sint (sys_amount_stored (systems ?part 1)) -
           (sint (res_max_capacity (resources ?part 4)) - sint (res_amount (resources ?part 4)))"
    by blast
  from system_store_resources_produce [OF f(1-4)] f(5)
  have 3: "system_store_resources 1 ?full = (STATUS_CAPACITY, ?full)"
    by blast
  from 1 r(6) 2 p(6,7) 3 show ?thesis by simp
qed

section \<open>The amount of a resource stays within its bounds\<close>

lemma consume_in_bounds:
  fixes amount req cap :: c_int
  assumes "0 \<le>s amount" "amount \<le>s cap" "0 \<le>s req" "req \<le>s amount"
  shows "0 \<le>s amount - req \<and> amount - req \<le>s cap"
  using assms sint_sub_nonneg [OF assms(3,4)] by (simp add: word_sle_eq)

lemma produce_all_in_bounds:
  fixes amount req cap :: c_int
  assumes "0 \<le>s amount" "amount \<le>s cap" "0 \<le>s req" "req \<le>s cap - amount"
  shows "0 \<le>s amount + req \<and> amount + req \<le>s cap"
proof -
  have cap: "0 \<le>s cap" using assms(1,2) by (simp add: word_sle_eq)
  have av: "sint (cap - amount) = sint cap - sint amount"
    by (rule sint_sub_both_nonneg [OF cap assms(1)])
  have "sint (amount + req) = sint amount + sint req"
    using assms av by (intro sint_add_bounded [where c = cap]) (simp_all add: word_sle_eq)
  then show ?thesis using assms av by (simp add: word_sle_eq)
qed

lemma system_convert_in_bounds:
  assumes "amount_in_bounds (resources m r)"
    and "0 \<le>s ra_amount (sys_consumed (systems m system))"
  shows "amount_in_bounds (resources (snd (system_convert system m)) r)"
proof (cases "ra_resource (sys_consumed (systems m system))")
  case None
  with assms show ?thesis by (simp add: system_convert_eq Let_def)
next
  case (Some c)
  show ?thesis
  proof (cases "ra_amount (sys_consumed (systems m system)) \<le>s res_amount (resources m c)")
    case False
    with Some assms show ?thesis by (simp add: system_convert_eq Let_def)
  next
    case True
    have res: "resources (snd (system_convert system m)) =
      (resources m)(c := (resources m c)\<lparr>res_amount := res_amount (resources m c) - ra_amount (sys_consumed (systems m system))\<rparr>)"
      using Some True by (simp add: system_convert_eq mem_simps split: option.splits)
    show ?thesis
    proof (cases "c = r")
      case False
      with res assms show ?thesis by simp
    next
      case c: True
      with res assms True consume_in_bounds [of "res_amount (resources m r)" "res_max_capacity (resources m r)"
          "ra_amount (sys_consumed (systems m system))"]
      show ?thesis by (simp add: amount_in_bounds_def)
    qed
  qed
qed

lemma system_store_resources_in_bounds:
  assumes "amount_in_bounds (resources m r)"
    and "0 \<le>s sys_amount_stored (systems m system)"
  shows "amount_in_bounds (resources (snd (system_store_resources system m)) r)"
proof (cases "ra_resource (sys_produced (systems m system))")
  case None
  with assms show ?thesis by (simp add: system_store_resources_def Let_def)
next
  case (Some p)
  let ?stored = "sys_amount_stored (systems m system)"
  let ?available = "res_max_capacity (resources m p) - res_amount (resources m p)"
  consider (zero) "?stored = 0"
    | (all) "?stored \<noteq> 0" "?stored \<le>s ?available"
    | (part) "?stored \<noteq> 0" "\<not> ?stored \<le>s ?available" "0 <s ?available"
    | (none) "?stored \<noteq> 0" "\<not> ?stored \<le>s ?available" "\<not> 0 <s ?available"
    by blast
  then show ?thesis
  proof cases
    case zero
    with Some assms show ?thesis by (simp add: system_store_resources_def Let_def)
  next
    case none
    with Some assms show ?thesis by (simp add: system_store_resources_def Let_def)
  next
    case all
    have res: "resources (snd (system_store_resources system m)) =
      (resources m)(p := (resources m p)\<lparr>res_amount := res_amount (resources m p) + ?stored\<rparr>)"
      using Some all by (simp add: system_store_resources_def mem_simps)
    show ?thesis
    proof (cases "p = r")
      case False
      with res assms show ?thesis by simp
    next
      case True
      with res assms all produce_all_in_bounds [of "res_amount (resources m r)"
          "res_max_capacity (resources m r)" ?stored]
      show ?thesis by (simp add: amount_in_bounds_def)
    qed
  next
    case part
    have res: "resources (snd (system_store_resources system m)) =
      (resources m)(p := (resources m p)\<lparr>res_amount := res_amount (resources m p) + ?available\<rparr>)"
      using Some part by (simp add: system_store_resources_def mem_simps)
    show ?thesis
    proof (cases "p = r")
      case False
      with res assms show ?thesis by simp
    next
      case True
      with res assms show ?thesis by (auto simp: amount_in_bounds_def word_sle_eq)
    qed
  qed
qed

lemma apply_op_in_bounds:
  "amount_in_bounds (resources m r) \<Longrightarrow> 0 \<le>s requested op m \<Longrightarrow>
   amount_in_bounds (resources (apply_op op m) r)"
  by (cases op) (simp_all add: system_convert_in_bounds system_store_resources_in_bounds)

text \<open>
  C1. A resource whose amount is between 0 and its capacity keeps its amount in that
  interval through every sequence of calls of \<^verbatim>\<open>system_convert\<close> and
  \<^verbatim>\<open>system_store_resources\<close>, by any systems, in which each call requests a
  non-negative amount: the bound holds in every memory the sequence goes through.
\<close>

theorem resource_amount_in_bounds:
  assumes "amount_in_bounds (resources m r)" and "requests_nonneg ops m"
  shows "\<forall>m' \<in> set (run_ops ops m). amount_in_bounds (resources m' r)"
  using assms
proof (induction ops arbitrary: m)
  case Nil
  then show ?case by simp
next
  case (Cons op ops)
  from Cons.prems have "amount_in_bounds (resources (apply_op op m) r)"
    by (simp add: apply_op_in_bounds)
  with Cons show ?case by simp
qed


theorem resource_amount_in_bounds_witness:
  "amount_in_bounds (resources load_data 2) \<and>
   requests_nonneg [Consume 3, Consume 2, Produce 2] load_data \<and>
   amount_in_bounds
     (resources (apply_op (Produce 2) (apply_op (Consume 2) (apply_op (Consume 3) load_data))) 2)"
proof -
  have h1: "amount_in_bounds (resources load_data 2)"
    by (simp add: amount_in_bounds_def scenario_defs word_sle_eq)
  have h2: "requests_nonneg [Consume 3, Consume 2, Produce 2] load_data"
    by (simp add: system_convert_eq system_store_resources_def mem_simps scenario_defs
          word_sle_eq word_sless_alt)
  have "apply_op (Produce 2) (apply_op (Consume 2) (apply_op (Consume 3) load_data))
          \<in> set (run_ops [Consume 3, Consume 2, Produce 2] load_data)"
    by simp
  with resource_amount_in_bounds [OF h1 h2] h1 h2 show ?thesis by blast
qed

section \<open>The manager's reaction\<close>

lemma update_statuses_systems:
  "systems (update_statuses ps status resource m) a =
     (if a \<in> set ps \<and> (status = TERMINATE \<or> ra_resource (sys_produced (systems m a)) = resource)
      then (systems m a)\<lparr>sys_status := status\<rparr> else systems m a)"
  by (induction ps status resource m rule: update_statuses.induct) (auto simp: set_status_def)

lemma update_statuses_frame:
  "update_statuses ps status resource m =
     m\<lparr>systems := systems (update_statuses ps status resource m)\<rparr>"
  by (induction ps status resource m rule: update_statuses.induct) (auto simp: set_status_def)

lemma update_statuses_eq:
  "update_statuses ps status resource m =
     m\<lparr>systems := \<lambda>a.
        if a \<in> set ps \<and> (status = TERMINATE \<or> ra_resource (sys_produced (systems m a)) = resource)
        then (systems m a)\<lparr>sys_status := status\<rparr> else systems m a\<rparr>"
proof -
  have "systems (update_statuses ps status resource m) = (\<lambda>a.
        if a \<in> set ps \<and> (status = TERMINATE \<or> ra_resource (sys_produced (systems m a)) = resource)
        then (systems m a)\<lparr>sys_status := status\<rparr> else systems m a)"
    by (rule ext) (rule update_statuses_systems)
  with update_statuses_frame [of ps status resource m] show ?thesis by simp
qed

text \<open>
  C7. When the manager handles an event with status \<^verbatim>\<open>STATUS_LOW\<close>,
  \<^verbatim>\<open>STATUS_EMPTY\<close> or \<^verbatim>\<open>STATUS_INSUFFICIENT\<close> on a resource whose name is not
  Oxygen, the local \<^verbatim>\<open>status\<close> becomes \<^verbatim>\<open>FAST\<close>, every system of the system array
  whose produced resource is the event's resource gets the status \<^verbatim>\<open>FAST\<close>, and nothing
  else in memory changes: no other system, no other field.
\<close>

theorem manager_speeds_up_producers:
  assumes "ev_system event = Some s" and "ev_resource event = Some r"
    and "ev_status event = STATUS_LOW \<or> ev_status event = STATUS_EMPTY
         \<or> ev_status event = STATUS_INSUFFICIENT"
    and "res_name (resources m r) \<noteq> ''Oxygen''"
  shows "manager_handle_event event status m =
     Inr (FAST, m\<lparr>systems := \<lambda>a.
        if a \<in> set (system_array m) \<and> ra_resource (sys_produced (systems m a)) = Some r
        then (systems m a)\<lparr>sys_status := FAST\<rparr> else systems m a\<rparr>)"
proof -
  have "ev_status event \<noteq> STATUS_CAPACITY"
    using assms(3) by auto
  then show ?thesis
    using assms by (auto simp: manager_handle_event_def Let_def update_statuses_eq)
qed

theorem manager_speeds_up_producers_witness:
  "map_sum id (\<lambda>(status, m'). (status, map (\<lambda>a. sys_status (systems m' a)) (system_array m')))
     (manager_handle_event life_support_energy_short STANDARD (set_amount 3 2 load_data)) =
   Inr (FAST, [STANDARD, STANDARD, STANDARD, FAST])"
proof -
  let ?m = "set_amount 3 2 load_data"
  have h: "ev_system life_support_energy_short = Some 2"
    "ev_resource life_support_energy_short = Some 3"
    "ev_status life_support_energy_short = STATUS_LOW \<or> ev_status life_support_energy_short = STATUS_EMPTY
         \<or> ev_status life_support_energy_short = STATUS_INSUFFICIENT"
    "res_name (resources ?m 3) \<noteq> ''Oxygen''"
    by (simp_all add: life_support_energy_short_def event_init_def set_amount_def scenario_defs)
  show ?thesis
    unfolding manager_speeds_up_producers [OF h]
    by (simp add: set_amount_def scenario_defs)
qed

section \<open>Null pointers\<close>

lemma system_convert_not_ok:
  assumes "system_convert system m = (result_status, m1)" and "result_status \<noteq> STATUS_OK"
  shows "m1 = m \<and> ra_resource (sys_consumed (systems m system)) \<noteq> None"
  using assms by (auto simp: system_convert_eq Let_def split: option.splits if_splits)

lemma system_store_resources_produced:
  "sys_produced (systems (snd (system_store_resources system m)) system) = sys_produced (systems m system)"
  by (auto simp: system_store_resources_def mem_simps split: option.splits)

lemma system_store_resources_not_ok:
  assumes "system_store_resources system m = (result_status, m3)" and "result_status \<noteq> STATUS_OK"
  shows "ra_resource (sys_produced (systems m3 system)) \<noteq> None"
proof -
  have "ra_resource (sys_produced (systems m system)) \<noteq> None"
    using assms by (auto simp: system_store_resources_def split: option.splits)
  moreover have "sys_produced (systems m3 system) = sys_produced (systems m system)"
    using system_store_resources_produced [of system m] assms(1) by simp
  ultimately show ?thesis by simp
qed

lemma emit_event_no_fault:
  "resource \<noteq> None \<Longrightarrow> \<exists>m'. emit_event system resource result_status priority m = Inr m'"
  by (auto simp: emit_event_def Let_def)

lemma system_run_step1_no_fault:
  "\<exists>m2. (if sys_amount_stored (systems m system) = 0 then
           (case system_convert system m of
              (result_status, m1) \<Rightarrow>
                if result_status \<noteq> STATUS_OK then
                  emit_event system (ra_resource (sys_consumed (systems m1 system)))
                    result_status PRIORITY_HIGH m1
                else Inr m1)
         else Inr m) = Inr m2"
proof (cases "system_convert system m")
  case (Pair result_status m1)
  show ?thesis
  proof (cases "result_status = STATUS_OK")
    case True
    with Pair show ?thesis by simp
  next
    case False
    from system_convert_not_ok [OF Pair False]
    have "ra_resource (sys_consumed (systems m1 system)) \<noteq> None" by simp
    from emit_event_no_fault [OF this] Pair False show ?thesis by simp
  qed
qed

lemma system_run_step2_no_fault:
  "\<exists>m'. (if 0 <s sys_amount_stored (systems m2 system) then
               (case system_store_resources system m2 of
                  (result_status, m3) \<Rightarrow>
                    if result_status \<noteq> STATUS_OK then
                      emit_event system (ra_resource (sys_produced (systems m3 system)))
                        result_status PRIORITY_LOW m3
                    else Inr m3)
             else Inr m2) = Inr m'"
proof (cases "system_store_resources system m2")
  case (Pair result_status m3)
  show ?thesis
  proof (cases "result_status = STATUS_OK")
    case True
    with Pair show ?thesis by simp
  next
    case False
    from system_store_resources_not_ok [OF Pair False]
    have "ra_resource (sys_produced (systems m3 system)) \<noteq> None" by simp
    from emit_event_no_fault [OF this] Pair False show ?thesis by simp
  qed
qed

lemma system_run_no_fault: "\<exists>m'. system_run system m = Inr m'"
proof -
  obtain m2 where 1: "(if sys_amount_stored (systems m system) = 0 then
           (case system_convert system m of
              (result_status, m1) \<Rightarrow>
                if result_status \<noteq> STATUS_OK then
                  emit_event system (ra_resource (sys_consumed (systems m1 system)))
                    result_status PRIORITY_HIGH m1
                else Inr m1)
         else Inr m) = Inr m2"
    using system_run_step1_no_fault by blast
  obtain m' where 2: "(if 0 <s sys_amount_stored (systems m2 system) then
               (case system_store_resources system m2 of
                  (result_status, m3) \<Rightarrow>
                    if result_status \<noteq> STATUS_OK then
                      emit_event system (ra_resource (sys_produced (systems m3 system)))
                        result_status PRIORITY_LOW m3
                    else Inr m3)
             else Inr m2) = Inr m'"
    using system_run_step2_no_fault by blast
  have "system_run system m = Inr m'"
    unfolding system_run_def Let_def 1 using 2 by simp
  then show ?thesis by blast
qed

lemma system_convert_amount_stored_null_produced:
  "ra_resource (sys_produced (systems m system)) = None \<Longrightarrow>
   sys_amount_stored (systems (snd (system_convert system m)) system) = sys_amount_stored (systems m system)"
  by (auto simp: system_convert_eq mem_simps split: option.splits)

text \<open>
  C10. \<^verbatim>\<open>system_run\<close> never reads through a \<^verbatim>\<open>NULL\<close> resource pointer: from every
  memory it ends without the fault. With no consumed resource \<^verbatim>\<open>system_convert\<close>
  returns \<^verbatim>\<open>STATUS_OK\<close> and changes nothing, so the first report is not reached; with no
  produced resource \<^verbatim>\<open>system_convert\<close> leaves \<^verbatim>\<open>amount_stored\<close> as it is and
  \<^verbatim>\<open>system_store_resources\<close> returns \<^verbatim>\<open>STATUS_OK\<close> and changes nothing, so the
  second report is not reached.
\<close>

theorem system_run_no_null_dereference:
  "(\<exists>m'. system_run system m = Inr m') \<and>
   (ra_resource (sys_consumed (systems m system)) = None \<longrightarrow>
      system_convert system m = (STATUS_OK, m)) \<and>
   (ra_resource (sys_produced (systems m system)) = None \<longrightarrow>
      sys_amount_stored (systems (snd (system_convert system m)) system) = sys_amount_stored (systems m system) \<and>
      system_store_resources system m = (STATUS_OK, m))"
proof (intro conjI impI)
  show "\<exists>m'. system_run system m = Inr m'" by (rule system_run_no_fault)
next
  assume "ra_resource (sys_consumed (systems m system)) = None"
  then show "system_convert system m = (STATUS_OK, m)"
    by (simp add: system_convert_eq Let_def)
next
  assume "ra_resource (sys_produced (systems m system)) = None"
  then show "sys_amount_stored (systems (snd (system_convert system m)) system) = sys_amount_stored (systems m system)"
    by (rule system_convert_amount_stored_null_produced)
next
  assume "ra_resource (sys_produced (systems m system)) = None"
  then show "system_store_resources system m = (STATUS_OK, m)"
    by (simp add: system_store_resources_def)
qed

theorem system_run_no_null_dereference_witness:
  "ra_resource (sys_consumed (systems pure_source 5)) = None \<and>
   system_convert 5 pure_source = (STATUS_OK, pure_source) \<and>
   ra_resource (sys_produced (systems load_data 3)) = None \<and>
   sys_amount_stored (systems (snd (system_convert 3 load_data)) 3) =
     sys_amount_stored (systems load_data 3) \<and>
   system_store_resources 3 load_data = (STATUS_OK, load_data)"
proof -
  have c: "ra_resource (sys_consumed (systems pure_source 5)) = None"
    by (simp add: pure_source_def scenario_defs)
  have p: "ra_resource (sys_produced (systems load_data 3)) = None"
    by (simp add: scenario_defs)
  from system_run_no_null_dereference [of 5 pure_source] c
  have 1: "system_convert 5 pure_source = (STATUS_OK, pure_source)" by blast
  from system_run_no_null_dereference [of 3 load_data] p
  have 2: "sys_amount_stored (systems (snd (system_convert 3 load_data)) 3) =
      sys_amount_stored (systems load_data 3) \<and>
    system_store_resources 3 load_data = (STATUS_OK, load_data)" by blast
  from c p 1 2 show ?thesis by blast
qed

section \<open>The status \<^verbatim>\<open>DISABLED\<close>\<close>

text \<open>
  C9 fails. In the scenario with the Crew system set to \<^verbatim>\<open>DISABLED\<close>, a turn of its
  worker loop takes one unit of oxygen (20 before, 19 after) and sleeps for the processing
  time of 2 ms.
\<close>

theorem disabled_system_consumes:
  "sys_status (systems (set_status 3 DISABLED load_data) 3) = DISABLED \<and>
   res_amount (resources (set_status 3 DISABLED load_data) 2) = 20 \<and>
   system_thread_iteration 3 (set_status 3 DISABLED load_data) =
     Inr (Some (usleep 2000 (set_amount 2 19 (set_status 3 DISABLED load_data)))) \<and>
   res_amount (resources (usleep 2000 (set_amount 2 19 (set_status 3 DISABLED load_data))) 2) = 19 \<and>
   usleeps (usleep 2000 (set_amount 2 19 (set_status 3 DISABLED load_data))) = [2000]"
  by (simp add: system_thread_iteration_def system_run_def system_convert_eq mem_simps
        scenario_defs word_sle_eq word_sless_alt)

lemma set_status_fields:
  "sys_amount_stored (systems (set_status system st m) a) = sys_amount_stored (systems m a)"
  "sys_consumed (systems (set_status system st m) a) = sys_consumed (systems m a)"
  "sys_produced (systems (set_status system st m) a) = sys_produced (systems m a)"
  by (simp_all add: set_status_def)

lemma system_convert_set_status:
  assumes "sys_status (systems m system) \<noteq> SLOW" "sys_status (systems m system) \<noteq> FAST"
    and "st \<noteq> SLOW" "st \<noteq> FAST"
  shows "system_convert system (set_status system st m) =
     map_prod id (set_status system st) (system_convert system m)"
  using assms
  by (auto simp: system_convert_eq mem_simps split: option.splits
        intro!: memory.equality System.equality ext)

lemma system_store_resources_set_status:
  "system_store_resources system (set_status system st m) =
     map_prod id (set_status system st) (system_store_resources system m)"
  by (auto simp: system_store_resources_def mem_simps split: option.splits
        intro!: memory.equality System.equality ext)

lemma emit_event_set_status:
  "emit_event system resource result_status priority (set_status system st m) =
     map_sum id (set_status system st) (emit_event system resource result_status priority m)"
  by (auto simp: emit_event_def mem_simps split: option.splits
        intro!: memory.equality System.equality ext)

lemma system_run_set_status:
  assumes "sys_status (systems m system) \<noteq> SLOW" "sys_status (systems m system) \<noteq> FAST"
    and "st \<noteq> SLOW" "st \<noteq> FAST"
  shows "system_run system (set_status system st m) =
     map_sum id (set_status system st) (system_run system m)"
proof -
  let ?m = "set_status system st m"
  define step1 where "step1 =
        (if sys_amount_stored (systems m system) = 0 then
           (case system_convert system m of
              (result_status, m1) \<Rightarrow>
                if result_status \<noteq> STATUS_OK then
                  emit_event system (ra_resource (sys_consumed (systems m1 system)))
                    result_status PRIORITY_HIGH m1
                else Inr m1)
         else Inr m)"
  define step2 where "step2 = (\<lambda>m2.
             if 0 <s sys_amount_stored (systems m2 system) then
               (case system_store_resources system m2 of
                  (result_status, m3) \<Rightarrow>
                    if result_status \<noteq> STATUS_OK then
                      emit_event system (ra_resource (sys_produced (systems m3 system)))
                        result_status PRIORITY_LOW m3
                    else Inr m3)
             else Inr m2)"
  have run: "system_run system m' =
      (case (if sys_amount_stored (systems m' system) = 0 then
           (case system_convert system m' of
              (result_status, m1) \<Rightarrow>
                if result_status \<noteq> STATUS_OK then
                  emit_event system (ra_resource (sys_consumed (systems m1 system)))
                    result_status PRIORITY_HIGH m1
                else Inr m1)
         else Inr m') of Inl f \<Rightarrow> Inl f | Inr m2 \<Rightarrow> step2 m2)" for m'
    unfolding system_run_def Let_def step2_def by (rule refl)
  have s1: "(if sys_amount_stored (systems ?m system) = 0 then
           (case system_convert system ?m of
              (result_status, m1) \<Rightarrow>
                if result_status \<noteq> STATUS_OK then
                  emit_event system (ra_resource (sys_consumed (systems m1 system)))
                    result_status PRIORITY_HIGH m1
                else Inr m1)
         else Inr ?m) = map_sum id (set_status system st) step1"
    by (cases "system_convert system m")
       (simp add: step1_def system_convert_set_status [OF assms] set_status_fields
          emit_event_set_status)
  have s2: "step2 (set_status system st m2) = map_sum id (set_status system st) (step2 m2)" for m2
    by (cases "system_store_resources system m2")
       (simp add: step2_def system_store_resources_set_status set_status_fields
          emit_event_set_status)
  show ?thesis
    unfolding run s1 unfolding step1_def [symmetric]
    by (cases step1) (simp_all add: s2)
qed

text \<open>
  A turn of the worker loop of a system with status \<^verbatim>\<open>DISABLED\<close> is the turn of the
  same system with status \<^verbatim>\<open>STANDARD\<close>, the status itself apart.
\<close>

lemma disabled_runs_as_standard:
  assumes "sys_status (systems m system) = DISABLED"
  shows "system_thread_iteration system m =
     map_sum id (map_option (set_status system DISABLED))
       (system_thread_iteration system (set_status system STANDARD m))"
proof -
  let ?std = "set_status system STANDARD m"
  have std: "sys_status (systems ?std system) = STANDARD"
    by (simp add: set_status_def)
  have restore: "set_status system DISABLED ?std = m"
    using assms by (auto simp: set_status_def intro!: memory.equality System.equality ext)
  have "system_run system (set_status system DISABLED ?std) =
      map_sum id (set_status system DISABLED) (system_run system ?std)"
    by (rule system_run_set_status) (simp_all add: std)
  then have "system_run system m = map_sum id (set_status system DISABLED) (system_run system ?std)"
    by (simp add: restore)
  then show ?thesis
    using assms std by (cases "system_run system ?std") (simp_all add: system_thread_iteration_def)
qed

lemma system_store_resources_other_resource:
  "ra_resource (sys_produced (systems m system)) \<noteq> Some r \<Longrightarrow>
   resources (snd (system_store_resources system m)) r = resources m r"
  by (auto simp: system_store_resources_def mem_simps split: option.splits)

lemma system_store_resources_usleeps:
  "usleeps (snd (system_store_resources system m)) = usleeps m"
  by (auto simp: system_store_resources_def mem_simps split: option.splits)

lemma emit_event_resources_usleeps:
  "emit_event system resource result_status priority m = Inr m' \<Longrightarrow>
   resources m' = resources m \<and> usleeps m' = usleeps m @ [SYSTEM_WAIT_TIME * 1000]"
  by (auto simp: emit_event_def mem_simps split: option.splits)

lemma disabled_system_works:
  assumes "sys_status (systems m system) = DISABLED"
    and "sys_amount_stored (systems m system) = 0"
    and "ra_resource (sys_consumed (systems m system)) = Some r"
    and "0 <s ra_amount (sys_consumed (systems m system))"
    and "ra_amount (sys_consumed (systems m system)) \<le>s res_amount (resources m r)"
    and "ra_resource (sys_produced (systems m system)) \<noteq> Some r"
  shows "\<exists>m'. system_thread_iteration system m = Inr (Some m') \<and>
      sint (res_amount (resources m' r)) =
        sint (res_amount (resources m r)) - sint (ra_amount (sys_consumed (systems m system))) \<and>
      take (Suc (length (usleeps m))) (usleeps m') =
        usleeps m @ [sys_processing_time (systems m system) * 1000]"
proof -
  let ?req = "ra_amount (sys_consumed (systems m system))"
  obtain m1 where c: "system_convert system m = (STATUS_OK, m1)"
    and r1: "res_amount (resources m1 r) = res_amount (resources m r) - ?req"
    and u1: "usleeps m1 = usleeps m @ [sys_processing_time (systems m system) * 1000]"
    and p1: "sys_produced (systems m1 system) = sys_produced (systems m system)"
    using assms by (auto simp: system_convert_eq mem_simps split: option.splits)
  have sub: "sint (res_amount (resources m r) - ?req) = sint (res_amount (resources m r)) - sint ?req"
    using assms(4,5) by (intro sint_sub_nonneg) simp_all
  obtain m' where run: "system_run system m = Inr m'"
    using system_run_no_fault by blast
  have run': "(if 0 <s sys_amount_stored (systems m1 system) then
               (case system_store_resources system m1 of
                  (result_status, m3) \<Rightarrow>
                    if result_status \<noteq> STATUS_OK then
                      emit_event system (ra_resource (sys_produced (systems m3 system)))
                        result_status PRIORITY_LOW m3
                    else Inr m3)
             else Inr m1) = Inr m'"
    using run c assms(2) unfolding system_run_def Let_def by simp
  have np: "ra_resource (sys_produced (systems m1 system)) \<noteq> Some r"
    using assms(6) p1 by simp
  have "resources m' r = resources m1 r \<and> take (Suc (length (usleeps m))) (usleeps m') = usleeps m1"
  proof (cases "0 <s sys_amount_stored (systems m1 system)")
    case False
    with run' u1 show ?thesis by simp
  next
    case True
    obtain st m3 where s: "system_store_resources system m1 = (st, m3)"
      by (cases "system_store_resources system m1")
    have m3: "resources m3 r = resources m1 r" "usleeps m3 = usleeps m1"
      using system_store_resources_other_resource [OF np] system_store_resources_usleeps [of system m1] s
      by simp_all
    show ?thesis
    proof (cases "st = STATUS_OK")
      case True
      with run' \<open>0 <s sys_amount_stored (systems m1 system)\<close> s m3 u1 show ?thesis by simp
    next
      case False
      with run' \<open>0 <s sys_amount_stored (systems m1 system)\<close> s
      have "emit_event system (ra_resource (sys_produced (systems m3 system))) st PRIORITY_LOW m3 = Inr m'"
        by simp
      from emit_event_resources_usleeps [OF this] m3 u1 show ?thesis by simp
    qed
  qed
  with r1 u1 sub have "sint (res_amount (resources m' r)) = sint (res_amount (resources m r)) - sint ?req \<and>
      take (Suc (length (usleeps m))) (usleeps m') = usleeps m @ [sys_processing_time (systems m system) * 1000]"
    by simp
  moreover have "system_thread_iteration system m = Inr (Some m')"
    using assms(1) run by (simp add: system_thread_iteration_def)
  ultimately show ?thesis by blast
qed

text \<open>
  C9, as the code has it. For every system with status \<^verbatim>\<open>DISABLED\<close> a turn of the
  worker loop is the turn of the same system with status \<^verbatim>\<open>STANDARD\<close>, the status
  itself apart: the same resources consumed and produced, the same \<^verbatim>\<open>amount_stored\<close>,
  the same events, the same delays. The status suspends nothing: when the system has
  nothing stored and its consumed resource, which is not also its produced one, holds at
  least the positive amount requested, the turn goes on, takes exactly that amount from the
  resource, and its first sleep after those recorded before is the processing time, not
  scaled.
\<close>

theorem disabled_iteration_works:
  assumes "sys_status (systems m system) = DISABLED"
  shows "system_thread_iteration system m =
       map_sum id (map_option (set_status system DISABLED))
         (system_thread_iteration system (set_status system STANDARD m)) \<and>
     (sys_amount_stored (systems m system) = 0 \<and>
      ra_resource (sys_consumed (systems m system)) = Some r \<and>
      0 <s ra_amount (sys_consumed (systems m system)) \<and>
      ra_amount (sys_consumed (systems m system)) \<le>s res_amount (resources m r) \<and>
      ra_resource (sys_produced (systems m system)) \<noteq> Some r \<longrightarrow>
      (\<exists>m'. system_thread_iteration system m = Inr (Some m') \<and>
         sint (res_amount (resources m' r)) =
           sint (res_amount (resources m r)) - sint (ra_amount (sys_consumed (systems m system))) \<and>
         take (Suc (length (usleeps m))) (usleeps m') =
           usleeps m @ [sys_processing_time (systems m system) * 1000]))"
  using disabled_runs_as_standard [OF assms] disabled_system_works [OF assms, of r]
  by blast

theorem disabled_iteration_works_witness:
  "sys_status (systems (set_status 3 DISABLED load_data) 3) = DISABLED \<and>
   sys_amount_stored (systems (set_status 3 DISABLED load_data) 3) = 0 \<and>
   sys_consumed (systems (set_status 3 DISABLED load_data) 3) = \<lparr>ra_resource = Some 2, ra_amount = 1\<rparr> \<and>
   res_amount (resources (set_status 3 DISABLED load_data) 2) = 20 \<and>
   ra_resource (sys_produced (systems (set_status 3 DISABLED load_data) 3)) = None \<and>
   (\<exists>m'. system_thread_iteration 3 (set_status 3 DISABLED load_data) = Inr (Some m') \<and>
      sint (res_amount (resources m' 2)) = 19 \<and>
      take (Suc (length (usleeps (set_status 3 DISABLED load_data)))) (usleeps m') = [2000])"
proof -
  let ?m = "set_status 3 DISABLED load_data"
  have h: "sys_status (systems ?m 3) = DISABLED"
    by (simp add: set_status_def)
  have f: "sys_amount_stored (systems ?m 3) = 0"
    "sys_consumed (systems ?m 3) = \<lparr>ra_resource = Some 2, ra_amount = 1\<rparr>"
    "res_amount (resources ?m 2) = 20"
    "ra_resource (sys_produced (systems ?m 3)) = None"
    "sys_processing_time (systems ?m 3) = 2" "usleeps ?m = []"
    by (simp_all add: set_status_def scenario_defs)
  have c: "sys_amount_stored (systems ?m 3) = 0 \<and>
      ra_resource (sys_consumed (systems ?m 3)) = Some 2 \<and>
      0 <s ra_amount (sys_consumed (systems ?m 3)) \<and>
      ra_amount (sys_consumed (systems ?m 3)) \<le>s res_amount (resources ?m 2) \<and>
      ra_resource (sys_produced (systems ?m 3)) \<noteq> Some 2"
    by (simp add: f word_sle_eq word_sless_alt)
  from disabled_iteration_works [OF h, of 2] c
  have "\<exists>m'. system_thread_iteration 3 ?m = Inr (Some m') \<and>
         sint (res_amount (resources m' 2)) =
           sint (res_amount (resources ?m 2)) - sint (ra_amount (sys_consumed (systems ?m 3))) \<and>
         take (Suc (length (usleeps ?m))) (usleeps m') =
           usleeps ?m @ [sys_processing_time (systems ?m 3) * 1000]"
    by blast
  then have "\<exists>m'. system_thread_iteration 3 ?m = Inr (Some m') \<and>
      sint (res_amount (resources m' 2)) = 19 \<and>
      take (Suc (length (usleeps ?m))) (usleeps m') = [2000]"
    by (simp add: f)
  with h f show ?thesis by simp
qed

section \<open>Oxygen runs out while another event is queued\<close>

text \<open>
  What one event does: an event with status \<^verbatim>\<open>STATUS_EMPTY\<close> on a resource named Oxygen
  sets every system of the array to \<^verbatim>\<open>TERMINATE\<close> and clears
  \<^verbatim>\<open>simulation_running\<close>. The loop then goes on to the next event.
\<close>

lemma manager_handle_oxygen_empty:
  assumes "ev_system event = Some s" and "ev_resource event = Some r"
    and "ev_status event = STATUS_EMPTY" and "res_name (resources m r) = ''Oxygen''"
  shows "manager_handle_event event status m =
     Inr (TERMINATE, m\<lparr>simulation_running := 0, systems := \<lambda>a.
        if a \<in> set (system_array m) then (systems m a)\<lparr>sys_status := TERMINATE\<rparr>
        else systems m a\<rparr>)"
  using assms by (simp add: manager_handle_event_def Let_def update_statuses_eq cong: if_cong)

lemma manager_loop_empty:
  "q_head (event_queue m) = [] \<Longrightarrow> manager_loop status m = Inr m"
  by (subst manager_loop.simps) (simp add: event_queue_pop_def)

lemma manager_loop_event:
  "q_head (event_queue m) = event # rest \<Longrightarrow>
   manager_loop status m =
     (case manager_handle_event event status
             (m\<lparr>event_queue := \<lparr>q_head = rest, q_size = q_size (event_queue m) - 1\<rparr>\<rparr>) of
        Inl f \<Rightarrow> Inl f
      | Inr (status', m') \<Rightarrow> manager_loop status' m')"
  by (subst manager_loop.simps) (simp add: event_queue_pop_def)

text \<open>
  The two workers that fill the queue: from \<open>oxygen_depleted\<close>, a run of the Crew (it
  finds no oxygen and reports \<^verbatim>\<open>STATUS_EMPTY\<close> on Oxygen with high priority), then a
  run of Life Support (it finds 2 units of energy where it needs 7 and reports
  \<^verbatim>\<open>STATUS_INSUFFICIENT\<close> on Energy with high priority, which goes behind the first
  event).
\<close>

lemma workers_fill_queue:
  "map_sum id (\<lambda>m. q_head (event_queue m))
     (and_then (system_run 3 oxygen_depleted) (system_run 2)) =
   Inr [crew_oxygen_empty, life_support_energy_short]"
  by (simp add: and_then_def system_run_def system_convert_eq emit_event_def mem_simps
        oxygen_depleted_def scenario_defs event_queue_push_def event_queue_init_def event_defs
        word_sle_eq word_sless_alt)

text \<open>
  C6 fails on the code. After these two runs one call of \<^verbatim>\<open>manager_run\<close> finds the
  event with \<^verbatim>\<open>STATUS_EMPTY\<close> on Oxygen at the head of the queue and the event with
  \<^verbatim>\<open>STATUS_INSUFFICIENT\<close> on Energy behind it. When it returns,
  \<^verbatim>\<open>simulation_running\<close> is 0 and Propulsion, Life Support and Crew have the status
  \<^verbatim>\<open>TERMINATE\<close>, but the Generator, which produces Energy, has the status \<^verbatim>\<open>FAST\<close>:
  the second event set it after the first had set \<^verbatim>\<open>TERMINATE\<close>.
\<close>

theorem oxygen_empty_then_energy_short:
  "map_sum id (\<lambda>m. (simulation_running m, map (\<lambda>a. sys_status (systems m a)) (system_array m)))
     (and_then (and_then (system_run 3 oxygen_depleted) (system_run 2)) manager_run) =
   Inr (0, [TERMINATE, TERMINATE, TERMINATE, FAST])"
  by (simp add: and_then_def system_run_def system_convert_eq emit_event_def mem_simps
        oxygen_depleted_def scenario_defs event_queue_push_def event_queue_init_def
        event_init_def word_sle_eq word_sless_alt manager_run_def manager_loop_event
        manager_loop_empty manager_handle_event_def)

section \<open>A system that consumes nothing\<close>

text \<open>
  Where a system has a consumed resource with enough in it and a produced resource,
  \<^verbatim>\<open>system_convert\<close> returns \<^verbatim>\<open>STATUS_OK\<close> and adds the produced amount to
  \<^verbatim>\<open>amount_stored\<close>.
\<close>

lemma system_convert_ok_stores:
  assumes "ra_resource (sys_consumed (systems m system)) = Some r"
    and "ra_amount (sys_consumed (systems m system)) \<le>s res_amount (resources m r)"
    and "ra_resource (sys_produced (systems m system)) = Some p"
  shows "fst (system_convert system m) = STATUS_OK \<and>
    sys_amount_stored (systems (snd (system_convert system m)) system) =
      sys_amount_stored (systems m system) + ra_amount (sys_produced (systems m system))"
  using assms by (simp add: system_convert_eq mem_simps)

text \<open>
  C8 fails on the code for a system without a consumed resource. The fifth system of
  \<open>pure_source\<close> consumes nothing, produces 10 units of energy and has nothing stored:
  \<^verbatim>\<open>system_convert\<close> returns \<^verbatim>\<open>STATUS_OK\<close> at its first \<^verbatim>\<open>return\<close> and leaves
  \<^verbatim>\<open>amount_stored\<close> at 0, and the whole of \<^verbatim>\<open>system_run\<close> changes nothing.
\<close>

theorem pure_source_never_produces:
  "sys_amount_stored (systems pure_source 5) = 0 \<and>
   sys_consumed (systems pure_source 5) = \<lparr>ra_resource = None, ra_amount = 0\<rparr> \<and>
   sys_produced (systems pure_source 5) = \<lparr>ra_resource = Some 3, ra_amount = 10\<rparr> \<and>
   system_convert 5 pure_source = (STATUS_OK, pure_source) \<and>
   system_run 5 pure_source = Inr pure_source"
  by (simp add: system_run_def system_convert_eq pure_source_def scenario_defs word_sless_alt)

end
